theory Spec2Isabelle
  imports Complex_Main
begin

section \<open>JavaScript values\<close>

text \<open>
  The tracker is JavaScript. Its finite numbers are modelled as exact reals, which is the
  type the specification gives these quantities; the rounding of IEEE doubles in the last
  digits is outside the model, their overflow is not: where the code raises 2 to a power
  and divides by it, the result is a \<open>js_number\<close>, finite or \<open>Infinity\<close>. The API delivers
  numbers, so \<open>undefined\<close> and \<open>NaN\<close> inputs are not modelled.
\<close>

type_synonym number = real

definition Math_floor :: "number \<Rightarrow> int" where
  "Math_floor x = \<lfloor>x\<rfloor>"

definition Math_ceil :: "number \<Rightarrow> int" where
  "Math_ceil x = \<lceil>x\<rceil>"

text \<open>\<open>Math.round\<close> rounds a half towards \<open>+\<infinity>\<close>.\<close>

definition Math_round :: "number \<Rightarrow> int" where
  "Math_round x = \<lfloor>x + 1 / 2\<rfloor>"

datatype js_number = Finite number | Infinity

text \<open>
  \<open>Math.pow\<close> at an integer exponent; a negative exponent inverts. At base 2, the only base
  the tracker passes, the power is a double exactly unless it overflows (from \<open>2\<^sup>1\<^sup>0\<^sup>2\<^sup>4\<close> on the
  result is \<open>Infinity\<close>) or underflows (below \<open>2\<^sup>-\<^sup>1\<^sup>0\<^sup>7\<^sup>4\<close>, the least positive double, the
  result is 0).
\<close>

definition Math_pow :: "number \<Rightarrow> int \<Rightarrow> js_number" where
  "Math_pow b e =
     (if 2 ^ 1024 \<le> b powi e then Infinity
      else if b powi e < 1 / 2 ^ 1074 then Finite 0
      else Finite (b powi e))"

text \<open>
  The division \<open>a / d\<close> of a positive number by a power: a divisor \<open>Infinity\<close> gives 0, a
  divisor 0 gives \<open>Infinity\<close>, and so does a quotient from \<open>2\<^sup>1\<^sup>0\<^sup>2\<^sup>4\<close> on. The finite quotients
  that arise are the dividend scaled by a power of two, which a double holds exactly.
\<close>

definition js_divide :: "number \<Rightarrow> js_number \<Rightarrow> js_number" where
  "js_divide a d =
     (case d of
        Infinity \<Rightarrow> Finite 0
      | Finite y \<Rightarrow>
          (if y = 0 then Infinity
           else if 2 ^ 1024 \<le> a / y then Infinity
           else Finite (a / y)))"

text \<open>The abstract operation \<open>ToIntegerOrInfinity\<close> truncates towards zero.\<close>

definition ToIntegerOrInfinity :: "number \<Rightarrow> int" where
  "ToIntegerOrInfinity x = (if 0 \<le> x then \<lfloor>x\<rfloor> else \<lceil>x\<rceil>)"

text \<open>\<open>a || b\<close> on numbers: \<open>0\<close> is falsy.\<close>

definition js_or :: "number \<Rightarrow> number \<Rightarrow> number" where
  "js_or a b = (if a = 0 then b else a)"

text \<open>The exceptions the code can raise: \<open>new Error(message)\<close>, and the \<open>RangeError\<close> of
  \<open>toISOString\<close> on an invalid date.\<close>

datatype js_error = Error string | RangeError

subsection \<open>Dates\<close>

text \<open>
  \<open>new Date()\<close> reads the system clock, and \<open>getDate\<close> and \<open>setDate\<close> work in the local time
  of the host. The reading is an explicit argument \<open>now\<close> of every function that reads the
  clock in the source. It is given by what the code consumes: the instant in the host's
  local time, as the day number since the epoch, the day of the month and the milliseconds
  within the day, and the host's conversion \<open>UTC\<close> of a local time to universal time, which
  is the rule of its time zone, daylight saving included. The readings taken during one
  call are taken to be the same instant.
\<close>

record js_date =
  Day :: int
  DateFromTime :: int
  TimeWithinDay :: int
  UTC :: "int \<Rightarrow> int"

definition msPerDay :: int where
  "msPerDay = 86400000"

definition local_time :: "js_date \<Rightarrow> int" where
  "local_time d = Day d * msPerDay + TimeWithinDay d"

text \<open>The time value of the reading, in universal time.\<close>

definition time_value :: "js_date \<Rightarrow> int" where
  "time_value d = UTC d (local_time d)"

text \<open>\<open>TimeClip\<close>: a time beyond \<open>8.64 \<times> 10\<^sup>1\<^sup>5\<close> ms is \<open>NaN\<close>, the invalid date (\<open>None\<close>);
  a time within the range is truncated to whole milliseconds.\<close>

definition TimeClip :: "number \<Rightarrow> int option" where
  "TimeClip t = (if \<bar>t\<bar> > 8640000000000000 then None else Some (ToIntegerOrInfinity t))"

text \<open>\<open>getDate()\<close> is the day of the month in local time.\<close>

definition getDate :: "js_date \<Rightarrow> number" where
  "getDate d = of_int (DateFromTime d)"

text \<open>
  \<open>d.setDate(x)\<close>, in local time: \<open>MakeDay\<close> counts \<open>ToIntegerOrInfinity x\<close> days from the day
  before the first of \<open>d\<close>'s month, \<open>MakeDate\<close> keeps the local time within the day, \<open>UTC\<close>
  converts the local time reached to universal time and \<open>TimeClip\<close> checks the range. The
  result is the new time value.
\<close>

definition setDate :: "js_date \<Rightarrow> number \<Rightarrow> int option" where
  "setDate d x =
     TimeClip (of_int (UTC d ((Day d - DateFromTime d + ToIntegerOrInfinity x) * msPerDay
                              + TimeWithinDay d)))"

text \<open>\<open>new Date(v)\<close> from a number.\<close>

definition Date_of_number :: "number \<Rightarrow> int option" where
  "Date_of_number v = TimeClip v"

text \<open>
  \<open>toISOString()\<close> throws on the invalid date. The string renders the time value in
  universal time, one to one; the time value stands for it here. \<open>.split('T')[0]\<close> keeps
  the calendar day in universal time, which the day number stands for.
\<close>

definition toISOString :: "int option \<Rightarrow> js_error + int" where
  "toISOString tv = (case tv of None \<Rightarrow> Inl RangeError | Some t \<Rightarrow> Inr t)"

definition iso_date_part :: "int \<Rightarrow> int" where
  "iso_date_part t = t div msPerDay"

section \<open>The browser tracker (public/app-enhanced.js, class BitcoinTracker)\<close>

definition getCurrentBlockReward :: "number \<Rightarrow> js_number" where
  "getCurrentBlockReward blockHeight =
     (let halvings = Math_floor (blockHeight / 210000)
      in js_divide 50 (Math_pow 2 halvings))"

definition calculateDailyMining :: number where
  "calculateDailyMining =
     (let dailyBlocks = 144; currentReward = 6.25
      in dailyBlocks * currentReward)"

definition calculateDaysToCompletion :: "number \<Rightarrow> int" where
  "calculateDaysToCompletion remainingBitcoin =
     (let dailyMining = calculateDailyMining
      in Math_floor (remainingBitcoin / dailyMining))"

definition calculateCompletionDate :: "js_date \<Rightarrow> number \<Rightarrow> js_error + int" where
  "calculateCompletionDate now remainingBitcoin =
     (let days = calculateDaysToCompletion remainingBitcoin;
          futureDate = setDate now (getDate now + of_int days)
      in toISOString futureDate)"

record next_halving =
  nh_nextHalvingBlock :: number
  nh_blocksUntilHalving :: number
  nh_daysUntilHalving :: int
  nh_estimatedDate :: int

definition calculateNextHalving :: "js_date \<Rightarrow> number \<Rightarrow> js_error + next_halving" where
  "calculateNextHalving now blockHeight =
     (let nextHalvingBlock = of_int (Math_ceil (blockHeight / 210000)) * 210000;
          blocksUntilHalving = nextHalvingBlock - blockHeight;
          daysUntilHalving = Math_floor (blocksUntilHalving / 144);
          halvingDate = setDate now (getDate now + of_int daysUntilHalving)
      in case toISOString halvingDate of
           Inl e \<Rightarrow> Inl e
         | Inr str \<Rightarrow> Inr \<lparr>nh_nextHalvingBlock = nextHalvingBlock,
                          nh_blocksUntilHalving = blocksUntilHalving,
                          nh_daysUntilHalving = daysUntilHalving,
                          nh_estimatedDate = str\<rparr>)"

text \<open>
  The body of the statistics endpoint, as \<open>JSON.parse\<close> delivers it. Only the fields the
  code reads are kept.
\<close>

record blockchain_stats =
  totalbc :: number
  n_blocks_total :: number
  difficulty :: number
  hash_rate :: number
  n_tx :: number

text \<open>
  \<open>fetchBlockchainData\<close> from the parsed statistics on. The four nested objects of the
  result are flattened, a field they repeat appearing once; the percentage, a string
  printed by \<open>toFixed\<close> from a rounded double, is left out. A failed fetch or an exception
  in the body is logged and thrown again.
\<close>

record blockchain_data =
  bd_totalBitcoinMined :: int
  bd_remainingBitcoin :: int
  bd_estimatedDaysToCompletion :: int
  bd_currentBlockHeight :: number
  bd_currentBlockReward :: js_number
  bd_difficulty :: number
  bd_networkHashRate :: number
  bd_bitcoinMinedLast24h :: number
  bd_blocksMinedLast24h :: number
  bd_averageBlockTime :: number
  bd_estimatedCompletionDate :: int
  bd_nextHalvingEstimate :: next_halving

definition fetchBlockchainData ::
  "js_date \<Rightarrow> js_error + blockchain_stats \<Rightarrow> js_error + blockchain_data" where
  "fetchBlockchainData now response =
     (case response of
        Inl e \<Rightarrow> Inl e
      | Inr stats \<Rightarrow>
          (let totalBitcoinMined = totalbc stats / 100000000;
               remainingBitcoin = 21000000 - totalBitcoinMined
           in case calculateCompletionDate now remainingBitcoin of
                Inl e \<Rightarrow> Inl e
              | Inr completion \<Rightarrow>
                  (case calculateNextHalving now (js_or (n_blocks_total stats) 850000) of
                     Inl e \<Rightarrow> Inl e
                   | Inr halving \<Rightarrow>
                       Inr \<lparr>bd_totalBitcoinMined = Math_floor totalBitcoinMined,
                            bd_remainingBitcoin = Math_floor remainingBitcoin,
                            bd_estimatedDaysToCompletion =
                              calculateDaysToCompletion remainingBitcoin,
                            bd_currentBlockHeight = js_or (n_blocks_total stats) 850000,
                            bd_currentBlockReward =
                              getCurrentBlockReward (js_or (n_blocks_total stats) 850000),
                            bd_difficulty = difficulty stats,
                            bd_networkHashRate = js_or (hash_rate stats) 500000000000000000000,
                            bd_bitcoinMinedLast24h = calculateDailyMining,
                            bd_blocksMinedLast24h = 144,
                            bd_averageBlockTime = 10,
                            bd_estimatedCompletionDate = completion,
                            bd_nextHalvingEstimate = halving\<rparr>)))"

section \<open>The data service (class BitcoinDataService)\<close>

text \<open>
  The constructor assigns the fields of the service once and no method assigns them again,
  so they are constants.
\<close>

definition this_TOTAL_BITCOIN_SUPPLY :: number where
  "this_TOTAL_BITCOIN_SUPPLY = 21000000"

definition this_SATOSHIS_PER_BITCOIN :: number where
  "this_SATOSHIS_PER_BITCOIN = 100000000"

definition this_BLOCKS_PER_DAY_AVERAGE :: number where
  "this_BLOCKS_PER_DAY_AVERAGE = 144"

definition this_currentBlockReward :: number where
  "this_currentBlockReward = 6.25"

record current_stats =
  cs_currentBlockHeight :: number
  cs_totalBitcoinsInCirculation :: number
  cs_currentBlockReward :: number
  cs_difficulty :: number
  cs_hashRate :: number
  cs_timestamp :: int

text \<open>
  \<open>getCurrentStats\<close> awaits two requests, the reward per block first. Each outcome is an
  argument: \<open>Inl\<close> when the request is rejected. Any rejection is caught and replaced.
\<close>

definition getCurrentStats ::
  "js_date \<Rightarrow> js_error + number \<Rightarrow> js_error + blockchain_stats \<Rightarrow> js_error + current_stats" where
  "getCurrentStats now response stats =
     (case response of
        Inl e \<Rightarrow> Inl (Error ''Failed to fetch current Bitcoin statistics'')
      | Inr bcperblock \<Rightarrow>
          (let currentBlockReward = bcperblock / this_SATOSHIS_PER_BITCOIN
           in case stats of
                Inl e \<Rightarrow> Inl (Error ''Failed to fetch current Bitcoin statistics'')
              | Inr sdata \<Rightarrow>
                  Inr \<lparr>cs_currentBlockHeight = n_blocks_total sdata,
                       cs_totalBitcoinsInCirculation = totalbc sdata / this_SATOSHIS_PER_BITCOIN,
                       cs_currentBlockReward = currentBlockReward,
                       cs_difficulty = difficulty sdata,
                       cs_hashRate = hash_rate sdata,
                       cs_timestamp = time_value now\<rparr>))"

record raw_block =
  rb_height :: number
  rb_hash :: string
  rb_time :: number
  rb_size :: number
  rb_n_tx :: number

record block_info =
  bi_height :: number
  bi_hash :: string
  bi_time :: int
  bi_size :: number
  bi_tx_count :: number

record daily_mining =
  dm_date :: int
  dm_blocksMinedLast24h :: number
  dm_bitcoinMinedLast24h :: number
  dm_averageBlockTime :: number
  dm_isEstimated :: bool
  dm_blocks :: "block_info list"

definition getEstimatedDailyData :: "js_date \<Rightarrow> daily_mining" where
  "getEstimatedDailyData now =
     (let estimatedBlocks = this_BLOCKS_PER_DAY_AVERAGE;
          estimatedBitcoin = estimatedBlocks * this_currentBlockReward
      in \<lparr>dm_date = iso_date_part (time_value now),
          dm_blocksMinedLast24h = estimatedBlocks,
          dm_bitcoinMinedLast24h = estimatedBitcoin,
          dm_averageBlockTime = 10,
          dm_isEstimated = True,
          dm_blocks = []\<rparr>)"

text \<open>\<open>blocks.map(...)\<close>: the first block whose time is no valid date makes
  \<open>toISOString\<close> throw.\<close>

fun map_blocks :: "raw_block list \<Rightarrow> js_error + block_info list" where
  "map_blocks [] = Inr []"
| "map_blocks (block # rest) =
     (case toISOString (Date_of_number (rb_time block * 1000)) of
        Inl e \<Rightarrow> Inl e
      | Inr t \<Rightarrow>
          (case map_blocks rest of
             Inl e \<Rightarrow> Inl e
           | Inr infos \<Rightarrow>
               Inr (\<lparr>bi_height = rb_height block, bi_hash = rb_hash block, bi_time = t,
                     bi_size = rb_size block, bi_tx_count = rb_n_tx block\<rparr> # infos)))"

text \<open>
  \<open>getDailyMiningData\<close>: the outcome of the request for the blocks of the last 24 hours is
  the argument. A rejection, or an exception in the body, falls back to the estimate.
\<close>

definition getDailyMiningData :: "js_date \<Rightarrow> js_error + raw_block list \<Rightarrow> daily_mining" where
  "getDailyMiningData now response =
     (case response of
        Inl e \<Rightarrow> getEstimatedDailyData now
      | Inr blocks \<Rightarrow>
          (let totalBlocks = of_nat (length blocks);
               totalBitcoinMined = totalBlocks * this_currentBlockReward
           in case map_blocks blocks of
                Inl e \<Rightarrow> getEstimatedDailyData now
              | Inr infos \<Rightarrow>
                  \<lparr>dm_date = iso_date_part (time_value now),
                   dm_blocksMinedLast24h = totalBlocks,
                   dm_bitcoinMinedLast24h = totalBitcoinMined,
                   dm_averageBlockTime = (if totalBlocks > 0 then (24 * 60) / totalBlocks else 10),
                   dm_isEstimated = False,
                   dm_blocks = infos\<rparr>))"

record halving_estimate =
  he_nextHalvingBlock :: number
  he_blocksUntilHalving :: number
  he_daysUntilHalving :: int
  he_estimatedDate :: int
  he_currentReward :: number
  he_nextReward :: number

definition getNextHalvingEstimate :: "js_date \<Rightarrow> number \<Rightarrow> js_error + halving_estimate" where
  "getNextHalvingEstimate now currentBlockHeight =
     (let HALVING_INTERVAL = 210000;
          nextHalvingBlock = of_int (Math_ceil (currentBlockHeight / HALVING_INTERVAL))
                               * HALVING_INTERVAL;
          blocksUntilHalving = nextHalvingBlock - currentBlockHeight;
          daysUntilHalving = blocksUntilHalving / this_BLOCKS_PER_DAY_AVERAGE;
          halvingDate = setDate now (getDate now + daysUntilHalving)
      in case toISOString halvingDate of
           Inl e \<Rightarrow> Inl e
         | Inr str \<Rightarrow> Inr \<lparr>he_nextHalvingBlock = nextHalvingBlock,
                          he_blocksUntilHalving = blocksUntilHalving,
                          he_daysUntilHalving = Math_round daysUntilHalving,
                          he_estimatedDate = iso_date_part str,
                          he_currentReward = this_currentBlockReward,
                          he_nextReward = this_currentBlockReward / 2\<rparr>)"

record remaining_bitcoin =
  rem_totalSupply :: number
  rem_currentSupply :: number
  rem_remainingBitcoin :: number
  rem_percentageMined :: number
  rem_estimatedCompletionDate :: int
  rem_currentBlockReward :: number
  rem_nextHalvingEstimate :: halving_estimate

text \<open>
  \<open>getRemainingBitcoin\<close> calls \<open>getCurrentStats\<close>; an exception anywhere in its body is
  caught and replaced.
\<close>

definition getRemainingBitcoin ::
  "js_date \<Rightarrow> js_error + number \<Rightarrow> js_error + blockchain_stats \<Rightarrow> js_error + remaining_bitcoin" where
  "getRemainingBitcoin now response stats =
     (case getCurrentStats now response stats of
        Inl e \<Rightarrow> Inl (Error ''Failed to calculate remaining Bitcoin'')
      | Inr currentStats \<Rightarrow>
          (let remaining = this_TOTAL_BITCOIN_SUPPLY - cs_totalBitcoinsInCirculation currentStats;
               blocksRemaining = remaining / this_currentBlockReward;
               daysRemaining = blocksRemaining / this_BLOCKS_PER_DAY_AVERAGE;
               estimatedCompletionDate = setDate now (getDate now + daysRemaining)
           in case toISOString estimatedCompletionDate of
                Inl e \<Rightarrow> Inl (Error ''Failed to calculate remaining Bitcoin'')
              | Inr str \<Rightarrow>
                  (case getNextHalvingEstimate now (cs_currentBlockHeight currentStats) of
                     Inl e \<Rightarrow> Inl (Error ''Failed to calculate remaining Bitcoin'')
                   | Inr halving \<Rightarrow>
                       Inr \<lparr>rem_totalSupply = this_TOTAL_BITCOIN_SUPPLY,
                            rem_currentSupply = cs_totalBitcoinsInCirculation currentStats,
                            rem_remainingBitcoin = remaining,
                            rem_percentageMined =
                              (cs_totalBitcoinsInCirculation currentStats
                                 / this_TOTAL_BITCOIN_SUPPLY) * 100,
                            rem_estimatedCompletionDate = iso_date_part str,
                            rem_currentBlockReward = this_currentBlockReward,
                            rem_nextHalvingEstimate = halving\<rparr>)))"

section \<open>The current-stats function and its cache\<close>

record 'a cache_entry =
  ce_data :: 'a
  ce_timestamp :: int

text \<open>
  The module's \<open>Map\<close> is passed and returned; \<open>Date.now()\<close> is the argument \<open>now\<close>, in
  milliseconds. The stored data are the objects the services return, never \<open>null\<close>, so the
  \<open>null\<close> that \<open>getCachedData\<close> returns is \<open>None\<close>.
\<close>

type_synonym 'a cache = "string \<rightharpoonup> 'a cache_entry"

definition CACHE_DURATION :: int where
  "CACHE_DURATION = 5 * 60 * 1000"

definition getCachedData :: "'a cache \<Rightarrow> int \<Rightarrow> string \<Rightarrow> 'a option" where
  "getCachedData cache now key =
     (case cache key of
        None \<Rightarrow> None
      | Some cached \<Rightarrow>
          (if now - ce_timestamp cached < CACHE_DURATION then Some (ce_data cached) else None))"

definition setCachedData :: "'a cache \<Rightarrow> int \<Rightarrow> string \<Rightarrow> 'a \<Rightarrow> 'a cache" where
  "setCachedData cache now key d = cache(key \<mapsto> \<lparr>ce_data = d, ce_timestamp = now\<rparr>)"

record stats_summary =
  ss_currentBlockHeight :: number
  ss_totalBitcoinMined :: int
  ss_remainingBitcoin :: int
  ss_currentDifficulty :: number
  ss_networkHashRate :: number
  ss_totalTransactions :: number
  ss_timestamp :: int

text \<open>\<open>getCurrentStats\<close> of the current-stats function; \<open>response\<close> is the block count
  after \<open>parseInt\<close>. The percentage, a string printed by \<open>toFixed\<close> from a rounded
  double, is left out.\<close>

definition current_stats_getCurrentStats ::
  "js_date \<Rightarrow> js_error + number \<Rightarrow> js_error + blockchain_stats \<Rightarrow> js_error + stats_summary" where
  "current_stats_getCurrentStats now response statsResponse =
     (case response of
        Inl e \<Rightarrow> Inl (Error ''Failed to fetch current Bitcoin statistics'')
      | Inr currentBlockHeight \<Rightarrow>
          (case statsResponse of
             Inl e \<Rightarrow> Inl (Error ''Failed to fetch current Bitcoin statistics'')
           | Inr stats \<Rightarrow>
               (let totalBitcoinMined = totalbc stats / this_SATOSHIS_PER_BITCOIN;
                    remainingBitcoin = this_TOTAL_BITCOIN_SUPPLY - totalBitcoinMined
                in Inr \<lparr>ss_currentBlockHeight = currentBlockHeight,
                        ss_totalBitcoinMined = Math_floor totalBitcoinMined,
                        ss_remainingBitcoin = Math_floor remainingBitcoin,
                        ss_currentDifficulty = difficulty stats,
                        ss_networkHashRate = hash_rate stats,
                        ss_totalTransactions = n_tx stats,
                        ss_timestamp = time_value now\<rparr>)))"

section \<open>The constants of the specification\<close>

text \<open>
  The protocol constants as the specification names them, for the statements that compare
  the code with the specification's formulas.
\<close>

definition TOTAL_SUPPLY_SATOSHIS :: number where
  "TOTAL_SUPPLY_SATOSHIS = 21000000 * 10 ^ 8"

definition HALVING_INTERVAL_BLOCKS :: number where
  "HALVING_INTERVAL_BLOCKS = 210000"

definition INITIAL_BLOCK_REWARD_SATOSHIS :: number where
  "INITIAL_BLOCK_REWARD_SATOSHIS = 50 * 10 ^ 8"

definition TARGET_BLOCKS_PER_DAY :: number where
  "TARGET_BLOCKS_PER_DAY = 144"

section \<open>Auxiliary notions for the statements\<close>

text \<open>
  A clock reading as a running system delivers it: a date between 1970 and the year 29349,
  a day of the month and a time of day in their ranges, and a time zone whose local time is
  within a day of universal time.
\<close>

definition plausible_reading :: "js_date \<Rightarrow> bool" where
  "plausible_reading now \<longleftrightarrow>
     0 \<le> Day now \<and> Day now \<le> 10000000 \<and> 1 \<le> DateFromTime now \<and> DateFromTime now \<le> 31
     \<and> 0 \<le> TimeWithinDay now \<and> TimeWithinDay now < msPerDay
     \<and> (\<forall>t. \<bar>UTC now t - t\<bar> \<le> msPerDay)"

text \<open>
  A history of \<open>setCachedData\<close> calls, oldest first, each with the value of \<open>Date.now()\<close> at
  the call, the key and the data; \<open>last_stored\<close> finds the most recent call for a key.
\<close>

type_synonym 'a store_call = "int \<times> string \<times> 'a"

fun run_stores :: "'a cache \<Rightarrow> 'a store_call list \<Rightarrow> 'a cache" where
  "run_stores cache [] = cache"
| "run_stores cache ((t, key, d) # calls) = run_stores (setCachedData cache t key d) calls"

fun last_stored :: "string \<Rightarrow> 'a store_call list \<Rightarrow> (int \<times> 'a) option" where
  "last_stored key [] = None"
| "last_stored key ((t, key', d) # calls) =
     (case last_stored key calls of
        Some r \<Rightarrow> Some r
      | None \<Rightarrow> (if key' = key then Some (t, d) else None))"

section \<open>The block reward\<close>

lemma two_powi_1024: "(2::real) powi 1024 = 2 ^ 1024"
  by (simp add: power_int_def)

lemma two_powi_m1074: "(2::real) powi (- 1074) = 1 / 2 ^ 1074"
  by (simp add: power_int_def field_simps)

lemma Math_pow_2_finite:
  assumes "- 1074 \<le> k" and "k \<le> 1023"
  shows "Math_pow 2 k = Finite (2 powi k)"
proof -
  have "(2::real) powi k < 2 powi 1024"
    using assms(2) by (intro power_int_strict_increasing) simp_all
  moreover have "(2::real) powi (- 1074) \<le> 2 powi k"
    using assms(1) by (intro power_int_increasing) simp_all
  ultimately show ?thesis
    unfolding Math_pow_def two_powi_1024 two_powi_m1074 by simp
qed

lemma Math_pow_2_overflow:
  assumes "1024 \<le> k"
  shows "Math_pow 2 k = Infinity"
proof -
  have "(2::real) powi 1024 \<le> 2 powi k"
    using assms by (intro power_int_increasing) simp_all
  then show ?thesis
    unfolding Math_pow_def two_powi_1024 by simp
qed

lemma halvings_range:
  assumes "- 213780000 \<le> h" and "h < 215040000"
  shows "- 1018 \<le> \<lfloor>h / 210000\<rfloor>" and "\<lfloor>h / 210000\<rfloor> \<le> 1023"
  using assms by (simp_all add: le_floor_iff floor_le_iff)

text \<open>Between 1018 intervals below zero and 1024 intervals above, nothing overflows.\<close>

lemma reward_finite:
  assumes "- 213780000 \<le> h" and "h < 215040000"
  shows "getCurrentBlockReward h = Finite (50 / 2 powi \<lfloor>h / 210000\<rfloor>)"
proof -
  let ?k = "\<lfloor>h / 210000\<rfloor>"
  note k = halvings_range [OF assms]
  have p: "Math_pow 2 ?k = Finite (2 powi ?k)"
    using k by (intro Math_pow_2_finite) simp_all
  have neg: "- ?k \<le> 1018" using k(1) by linarith
  have "(2::real) powi (- ?k) \<le> 2 powi 1018"
    by (rule power_int_increasing [OF neg]) simp
  then have "50 * (2::real) powi (- ?k) \<le> 50 * 2 powi 1018" by simp
  also have "\<dots> < 2 ^ 1024" by (simp add: power_int_def)
  finally have "50 / (2::real) powi ?k < 2 ^ 1024"
    by (simp add: power_int_minus field_simps)
  then show ?thesis
    by (simp add: getCurrentBlockReward_def Math_floor_def p js_divide_def)
qed

text \<open>From 1024 halvings on the power is \<open>Infinity\<close> and the reward 0.\<close>

lemma reward_overflow:
  assumes "215040000 \<le> h"
  shows "getCurrentBlockReward h = Finite 0"
proof -
  have "1024 \<le> \<lfloor>h / 210000\<rfloor>"
    using assms by (simp add: le_floor_iff)
  then have "Math_pow 2 \<lfloor>h / 210000\<rfloor> = Infinity"
    by (rule Math_pow_2_overflow)
  then show ?thesis
    by (simp add: getCurrentBlockReward_def Math_floor_def js_divide_def)
qed

lemma halved_pos: "0 < 50 / (2::real) powi k"
  by (simp add: zero_less_power_int)

lemma halved_antimono:
  assumes "(h1::real) \<le> h2"
  shows "50 / (2::real) powi \<lfloor>h2 / 210000\<rfloor> \<le> 50 / 2 powi \<lfloor>h1 / 210000\<rfloor>"
proof -
  have "\<lfloor>h1 / 210000\<rfloor> \<le> \<lfloor>h2 / 210000\<rfloor>"
    using assms by (intro floor_mono) simp
  then have "(2::real) powi \<lfloor>h1 / 210000\<rfloor> \<le> 2 powi \<lfloor>h2 / 210000\<rfloor>"
    by (intro power_int_increasing) simp_all
  then show ?thesis
    by (intro divide_left_mono) (simp_all add: zero_less_power_int)
qed

lemma halved_nonneg_height:
  assumes "0 \<le> (h::real)"
  shows "50 / (2::real) powi \<lfloor>h / 210000\<rfloor> = 50 / 2 ^ nat \<lfloor>h / 210000\<rfloor>"
proof -
  have "0 \<le> \<lfloor>h / 210000\<rfloor>" using assms by simp
  then show ?thesis by (simp add: power_int_def)
qed

lemma reward_values:
  "getCurrentBlockReward 0 = Finite 50" "getCurrentBlockReward 210000 = Finite 25"
  "getCurrentBlockReward 630000 = Finite 6.25" "getCurrentBlockReward 840000 = Finite 3.125"
  by (simp_all add: reward_finite)

lemma halved_sub_satoshi:
  assumes "6930000 \<le> (h::real)"
  shows "50 / (2::real) powi \<lfloor>h / 210000\<rfloor> < 1 / 10 ^ 8"
proof -
  have "50 / (2::real) powi \<lfloor>h / 210000\<rfloor> \<le> 50 / 2 powi \<lfloor>(6930000::real) / 210000\<rfloor>"
    using assms by (rule halved_antimono)
  also have "\<dots> = 50 / 2 ^ 33" by simp
  also have "\<dots> < 1 / 10 ^ 8" by simp
  finally show ?thesis .
qed

lemma halved_negative_height:
  assumes "(h::real) < 0"
  shows "50 / (2::real) powi \<lfloor>h / 210000\<rfloor> = 50 * 2 ^ nat (- \<lfloor>h / 210000\<rfloor>)"
    and "100 \<le> 50 * (2::real) ^ nat (- \<lfloor>h / 210000\<rfloor>)"
proof -
  have k: "\<lfloor>h / 210000\<rfloor> < 0" using assms by (simp add: floor_less_iff)
  then show "50 / (2::real) powi \<lfloor>h / 210000\<rfloor> = 50 * 2 ^ nat (- \<lfloor>h / 210000\<rfloor>)"
    by (simp add: power_int_def field_simps)
  have "1 \<le> nat (- \<lfloor>h / 210000\<rfloor>)" using k by linarith
  then have "(2::real) ^ 1 \<le> 2 ^ nat (- \<lfloor>h / 210000\<rfloor>)"
    by (intro power_increasing) simp_all
  then show "100 \<le> 50 * (2::real) ^ nat (- \<lfloor>h / 210000\<rfloor>)" by simp
qed

text \<open>
  Claim C3, as stated: for every height \<open>h \<ge> 0\<close> the reward equals
  \<open>INITIAL_BLOCK_REWARD_SATOSHIS / 2 ^ floor (h / HALVING_INTERVAL_BLOCKS) / 10\<^sup>8\<close>. It does
  not at height 215040000: after 1024 halvings \<open>Math.pow(2, 1024)\<close> is \<open>Infinity\<close> and the
  function returns 0, which the formula's value \<open>50 / 2\<^sup>1\<^sup>0\<^sup>2\<^sup>4\<close> is not.
\<close>

theorem reward_zero_after_1024_halvings:
  "getCurrentBlockReward 215040000 = Finite 0
   \<and> getCurrentBlockReward 215040000
       \<noteq> Finite (INITIAL_BLOCK_REWARD_SATOSHIS
                   / 2 ^ nat \<lfloor>215040000 / HALVING_INTERVAL_BLOCKS\<rfloor> / 10 ^ 8)"
  using reward_overflow [of 215040000]
  by (simp add: INITIAL_BLOCK_REWARD_SATOSHIS_def HALVING_INTERVAL_BLOCKS_def)

text \<open>
  Claim C3, amended. For every height \<open>h \<ge> 0\<close> below 215040000 (fewer than 1024 halvings)
  the reward is the initial reward in satoshis, halved once per completed interval of
  210000 blocks, in bitcoin:
  \<open>INITIAL_BLOCK_REWARD_SATOSHIS / 2 ^ floor (h / HALVING_INTERVAL_BLOCKS) / 10\<^sup>8\<close>; it is
  50 at height 0, 25 at 210000, 6.25 at 630000 and 3.125 at 840000. From height 215040000
  on the reward is 0.
\<close>

theorem getCurrentBlockReward_contract:
  assumes "0 \<le> h"
  shows "(h < 215040000 \<longrightarrow>
            getCurrentBlockReward h
              = Finite (INITIAL_BLOCK_REWARD_SATOSHIS
                          / 2 ^ nat \<lfloor>h / HALVING_INTERVAL_BLOCKS\<rfloor> / 10 ^ 8))
         \<and> (215040000 \<le> h \<longrightarrow> getCurrentBlockReward h = Finite 0)
         \<and> getCurrentBlockReward 0 = Finite 50
         \<and> getCurrentBlockReward 210000 = Finite 25
         \<and> getCurrentBlockReward 630000 = Finite 6.25
         \<and> getCurrentBlockReward 840000 = Finite 3.125"
  using assms
  by (simp add: reward_finite reward_overflow halved_nonneg_height reward_values
      INITIAL_BLOCK_REWARD_SATOSHIS_def HALVING_INTERVAL_BLOCKS_def)

theorem getCurrentBlockReward_contract_witness:
  "(0::real) \<le> 926444 \<and> (926444::real) < 215040000
   \<and> getCurrentBlockReward 926444 = Finite (INITIAL_BLOCK_REWARD_SATOSHIS / 2 ^ 4 / 10 ^ 8)
   \<and> getCurrentBlockReward 926444 = Finite 3.125
   \<and> (0::real) \<le> 300000000 \<and> (215040000::real) \<le> 300000000
   \<and> getCurrentBlockReward 300000000 = Finite 0"
  using getCurrentBlockReward_contract [of 926444] getCurrentBlockReward_contract [of 300000000]
  by (simp add: INITIAL_BLOCK_REWARD_SATOSHIS_def HALVING_INTERVAL_BLOCKS_def)

text \<open>
  Claim C7. For heights \<open>0 \<le> h1 \<le> h2\<close> the reward is a finite number at both heights, not
  negative at either, and the reward at \<open>h2\<close> is at most the reward at \<open>h1\<close>.
\<close>

theorem getCurrentBlockReward_nonneg_nonincreasing:
  assumes "0 \<le> h1" and "h1 \<le> h2"
  shows "\<exists>r1 r2. getCurrentBlockReward h1 = Finite r1 \<and> getCurrentBlockReward h2 = Finite r2
           \<and> 0 \<le> r1 \<and> 0 \<le> r2 \<and> r2 \<le> r1"
proof (cases "h2 < 215040000")
  case True
  with assms have "getCurrentBlockReward h1 = Finite (50 / 2 powi \<lfloor>h1 / 210000\<rfloor>)"
    and "getCurrentBlockReward h2 = Finite (50 / 2 powi \<lfloor>h2 / 210000\<rfloor>)"
    by (simp_all add: reward_finite)
  then show ?thesis
    using halved_antimono [OF assms(2)] halved_pos [of "\<lfloor>h1 / 210000\<rfloor>"]
      halved_pos [of "\<lfloor>h2 / 210000\<rfloor>"]
    by simp
next
  case False
  then have r2: "getCurrentBlockReward h2 = Finite 0"
    by (simp add: reward_overflow)
  show ?thesis
  proof (cases "h1 < 215040000")
    case True
    with assms have "getCurrentBlockReward h1 = Finite (50 / 2 powi \<lfloor>h1 / 210000\<rfloor>)"
      by (simp add: reward_finite)
    then show ?thesis
      using r2 halved_pos [of "\<lfloor>h1 / 210000\<rfloor>"] by simp
  next
    case False
    then have "getCurrentBlockReward h1 = Finite 0"
      by (simp add: reward_overflow)
    then show ?thesis using r2 by simp
  qed
qed

theorem getCurrentBlockReward_nonneg_nonincreasing_witness:
  "(0::real) \<le> 209999 \<and> (209999::real) \<le> 210000
   \<and> getCurrentBlockReward 209999 = Finite 50 \<and> getCurrentBlockReward 210000 = Finite 25
   \<and> (\<exists>r1 r2. getCurrentBlockReward 209999 = Finite r1
          \<and> getCurrentBlockReward 210000 = Finite r2 \<and> 0 \<le> r1 \<and> 0 \<le> r2 \<and> r2 \<le> r1)"
  using getCurrentBlockReward_nonneg_nonincreasing [of 209999 210000]
  by (simp add: reward_finite)

text \<open>
  Claim C8, as stated: beyond roughly 33 halvings the reward is exactly 0. It is not: at
  height 8400000, after 40 halvings, \<open>getCurrentBlockReward\<close> returns \<open>50 / 2\<^sup>4\<^sup>0\<close>, which is
  not 0.
\<close>

theorem reward_after_40_halvings_not_zero:
  "getCurrentBlockReward 8400000 = Finite (50 / 2 ^ 40)
   \<and> getCurrentBlockReward 8400000 \<noteq> Finite 0"
  by (simp add: reward_finite)

text \<open>
  Claim C8, amended. From 33 halvings on, and below 1024 halvings, the reward is
  \<open>50 / 2 ^ halvings\<close>: strictly positive and less than one satoshi (\<open>10\<^sup>-\<^sup>8\<close> bitcoin), so
  neither 0 nor negative; the divisor \<open>2 ^ halvings\<close> is finite and not zero.
\<close>

theorem reward_after_33_halvings_positive_fraction:
  assumes "6930000 \<le> h" and "h < 215040000"
  shows "Math_pow 2 (Math_floor (h / 210000)) = Finite (2 ^ nat \<lfloor>h / 210000\<rfloor>)
         \<and> Math_pow 2 (Math_floor (h / 210000)) \<noteq> Finite 0
         \<and> (\<exists>r. getCurrentBlockReward h = Finite r \<and> r = 50 / 2 ^ nat \<lfloor>h / 210000\<rfloor>
                \<and> 0 < r \<and> r < 1 / 10 ^ 8)"
proof -
  have h: "- 213780000 \<le> h" "0 \<le> h" using assms(1) by simp_all
  have k: "0 \<le> \<lfloor>h / 210000\<rfloor>" using h(2) by simp
  have "Math_pow 2 \<lfloor>h / 210000\<rfloor> = Finite (2 powi \<lfloor>h / 210000\<rfloor>)"
    using halvings_range [OF h(1) assms(2)] by (intro Math_pow_2_finite) simp_all
  then have p: "Math_pow 2 (Math_floor (h / 210000)) = Finite (2 ^ nat \<lfloor>h / 210000\<rfloor>)"
    using k by (simp add: Math_floor_def power_int_def)
  have "getCurrentBlockReward h = Finite (50 / 2 ^ nat \<lfloor>h / 210000\<rfloor>)"
    using reward_finite [OF h(1) assms(2)] halved_nonneg_height [OF h(2)] by simp
  moreover have "0 < 50 / (2::real) ^ nat \<lfloor>h / 210000\<rfloor>" by simp
  moreover have "50 / (2::real) ^ nat \<lfloor>h / 210000\<rfloor> < 1 / 10 ^ 8"
    using halved_sub_satoshi [OF assms(1)] halved_nonneg_height [OF h(2)] by simp
  ultimately show ?thesis using p by simp
qed

theorem reward_after_33_halvings_positive_fraction_witness:
  "(6930000::real) \<le> 8400000 \<and> (8400000::real) < 215040000
   \<and> Math_pow 2 (Math_floor (8400000 / 210000)) = Finite (2 ^ 40)
   \<and> getCurrentBlockReward 8400000 = Finite (50 / 2 ^ 40)
   \<and> (0::real) < 50 / 2 ^ 40 \<and> (50::real) / 2 ^ 40 < 1 / 10 ^ 8"
  using reward_after_33_halvings_positive_fraction [of 8400000]
  by (simp add: Math_floor_def reward_finite)

lemma ceiling_small_negative: "\<lceil>- (1 / 210000 :: real)\<rceil> = 0"
  by (rule ceiling_unique) simp_all

text \<open>
  Claim C9, as stated: a negative height is rejected with \<open>InvalidInput\<close>. It is not: at
  height \<open>-1\<close> the function has \<open>-1\<close> halvings and returns \<open>50 / 2\<^sup>-\<^sup>1 = 100\<close>, and
  \<open>fetchBlockchainData\<close>, which does propagate exceptions, returns a result carrying that
  height and that reward.
\<close>

theorem negative_height_not_rejected:
  "getCurrentBlockReward (- 1) = Finite 100
   \<and> (case fetchBlockchainData
              \<lparr>Day = 20395, DateFromTime = 3, TimeWithinDay = 0, UTC = \<lambda>t. t\<rparr>
              (Inr \<lparr>totalbc = 1995762100000000, n_blocks_total = - 1, difficulty = 1,
                    hash_rate = 1, n_tx = 1\<rparr>) of
         Inl e \<Rightarrow> False
       | Inr d \<Rightarrow> bd_currentBlockHeight d = - 1 \<and> bd_currentBlockReward d = Finite 100)"
proof -
  have r: "getCurrentBlockReward (- 1) = Finite 100"
    by (simp add: reward_finite)
  then show ?thesis
    by (simp add: fetchBlockchainData_def calculateCompletionDate_def
        calculateNextHalving_def calculateDaysToCompletion_def calculateDailyMining_def
        setDate_def getDate_def TimeClip_def toISOString_def ToIntegerOrInfinity_def
        Math_floor_def Math_ceil_def js_or_def msPerDay_def Let_def ceiling_small_negative)
qed

text \<open>
  Claim C9, amended. The function has no error condition at any height. A negative height
  (down to 1000 intervals below zero) is not rejected: the function returns
  \<open>50 \<times> 2 ^ (- floor (h / 210000))\<close>, which is at least 100.
\<close>

theorem negative_height_reward:
  assumes "h < 0" and "- 210000000 \<le> h"
  shows "\<exists>r. getCurrentBlockReward h = Finite r
           \<and> r = 50 * 2 ^ nat (- \<lfloor>h / 210000\<rfloor>) \<and> 100 \<le> r"
proof -
  have "getCurrentBlockReward h = Finite (50 / 2 powi \<lfloor>h / 210000\<rfloor>)"
    using assms by (intro reward_finite) simp_all
  then show ?thesis
    using halved_negative_height [OF assms(1)] by simp
qed

theorem negative_height_reward_witness:
  "(- 1::real) < 0 \<and> (- 210000000::real) \<le> - 1
   \<and> getCurrentBlockReward (- 1) = Finite (50 * 2 ^ 1) \<and> (100::real) \<le> 50 * 2 ^ 1"
  using negative_height_reward [of "- 1"] by simp

section \<open>Dates\<close>

lemma ToIntegerOrInfinity_bounds:
  "\<bar>y\<bar> \<le> of_int n \<Longrightarrow> \<bar>ToIntegerOrInfinity y\<bar> \<le> n"
  unfolding ToIntegerOrInfinity_def by (auto simp: abs_le_iff; linarith)

lemma ToIntegerOrInfinity_of_int [simp]: "ToIntegerOrInfinity (of_int n) = n"
  by (simp add: ToIntegerOrInfinity_def)

lemma ToIntegerOrInfinity_add_nonneg:
  "0 \<le> n \<Longrightarrow> 0 \<le> x \<Longrightarrow> ToIntegerOrInfinity (of_int n + x) = n + \<lfloor>x\<rfloor>"
  by (simp add: ToIntegerOrInfinity_def)

text \<open>A plausible reading moved by at most ten million days is still a valid date.\<close>

lemma setDate_in_range:
  assumes "plausible_reading now" and "\<bar>y - getDate now\<bar> \<le> 10000000"
  shows "setDate now y =
           Some (UTC now ((Day now - DateFromTime now + ToIntegerOrInfinity y) * msPerDay
                          + TimeWithinDay now))"
proof -
  let ?local = "(Day now - DateFromTime now + ToIntegerOrInfinity y) * msPerDay
                 + TimeWithinDay now"
  have "\<bar>y\<bar> \<le> of_int 10000031"
    using assms by (simp add: getDate_def plausible_reading_def abs_le_iff)
  then have "\<bar>ToIntegerOrInfinity y\<bar> \<le> 10000031"
    by (rule ToIntegerOrInfinity_bounds)
  then have "\<bar>?local\<bar> \<le> 8000000000000000"
    using assms(1) by (simp add: plausible_reading_def msPerDay_def abs_le_iff)
  moreover have "\<bar>UTC now ?local - ?local\<bar> \<le> 86400000"
    using assms(1) by (simp add: plausible_reading_def msPerDay_def)
  ultimately have "\<not> \<bar>real_of_int (UTC now ?local)\<bar> > 8640000000000000"
    by linarith
  then show ?thesis
    unfolding setDate_def TimeClip_def by (simp only: if_False ToIntegerOrInfinity_of_int)
qed

lemma moved_local_time:
  "(Day now + n) * msPerDay + TimeWithinDay now = local_time now + n * msPerDay"
  by (simp add: local_time_def algebra_simps)

section \<open>The next halving\<close>

lemma blocks_until_halving_bounds:
  "0 \<le> of_int \<lceil>h / 210000\<rceil> * 210000 - (h::real)"
  "of_int \<lceil>h / 210000\<rceil> * 210000 - (h::real) < 210000"
proof -
  have "h / 210000 \<le> of_int \<lceil>h / 210000\<rceil>" by (rule le_of_int_ceiling)
  then show "0 \<le> of_int \<lceil>h / 210000\<rceil> * 210000 - h" by linarith
  have "of_int \<lceil>h / 210000\<rceil> < h / 210000 + 1" by linarith
  then show "of_int \<lceil>h / 210000\<rceil> * 210000 - h < 210000" by linarith
qed

text \<open>Off the boundary the code's multiple is the next one above the height.\<close>

lemma next_halving_off_boundary:
  assumes "h / 210000 \<noteq> of_int \<lfloor>h / 210000\<rfloor>"
  shows "of_int (Math_ceil (h / 210000)) * 210000 = (of_int \<lfloor>h / 210000\<rfloor> + 1) * (210000::real)"
  using assms by (simp add: Math_ceil_def ceiling_altdef)

text \<open>On the boundary it is the height itself.\<close>

lemma next_halving_on_boundary:
  "of_int (Math_ceil (of_int k * 210000 / 210000)) * 210000 = of_int k * (210000::real)"
  by (simp add: Math_ceil_def)

lemma getNextHalvingEstimate_returns:
  assumes "plausible_reading now"
  shows "getNextHalvingEstimate now h =
           Inr \<lparr>he_nextHalvingBlock = of_int \<lceil>h / 210000\<rceil> * 210000,
                he_blocksUntilHalving = of_int \<lceil>h / 210000\<rceil> * 210000 - h,
                he_daysUntilHalving = Math_round ((of_int \<lceil>h / 210000\<rceil> * 210000 - h) / 144),
                he_estimatedDate = iso_date_part (UTC now (local_time now
                  + \<lfloor>(of_int \<lceil>h / 210000\<rceil> * 210000 - h) / 144\<rfloor> * msPerDay)),
                he_currentReward = this_currentBlockReward,
                he_nextReward = this_currentBlockReward / 2\<rparr>"
proof -
  let ?d = "(of_int \<lceil>h / 210000\<rceil> * 210000 - h) / 144"
  have d: "0 \<le> ?d" "\<bar>?d\<bar> \<le> 10000000"
    using blocks_until_halving_bounds [of h] by (simp_all add: abs_le_iff)
  have t: "ToIntegerOrInfinity (getDate now + ?d) = DateFromTime now + \<lfloor>?d\<rfloor>"
    unfolding getDate_def using assms d(1)
    by (intro ToIntegerOrInfinity_add_nonneg) (simp_all add: plausible_reading_def)
  have "setDate now (getDate now + ?d)
          = Some (UTC now (local_time now + \<lfloor>?d\<rfloor> * msPerDay))"
    using assms d(2) by (simp add: setDate_in_range t moved_local_time)
  then show ?thesis
    by (simp add: getNextHalvingEstimate_def Math_ceil_def this_BLOCKS_PER_DAY_AVERAGE_def
        toISOString_def Let_def)
qed

lemma calculateNextHalving_returns:
  assumes "plausible_reading now"
  shows "calculateNextHalving now h =
           Inr \<lparr>nh_nextHalvingBlock = of_int \<lceil>h / 210000\<rceil> * 210000,
                nh_blocksUntilHalving = of_int \<lceil>h / 210000\<rceil> * 210000 - h,
                nh_daysUntilHalving = \<lfloor>(of_int \<lceil>h / 210000\<rceil> * 210000 - h) / 144\<rfloor>,
                nh_estimatedDate = UTC now (local_time now
                  + \<lfloor>(of_int \<lceil>h / 210000\<rceil> * 210000 - h) / 144\<rfloor> * msPerDay)\<rparr>"
proof -
  let ?d = "\<lfloor>(of_int \<lceil>h / 210000\<rceil> * 210000 - h) / 144\<rfloor>"
  have "0 \<le> ?d" "?d \<le> 10000000"
    using blocks_until_halving_bounds [of h] by (simp_all add: floor_le_iff)
  then have d: "\<bar>real_of_int ?d\<bar> \<le> 10000000" by linarith
  have "getDate now + of_int ?d = of_int (DateFromTime now + ?d)"
    by (simp add: getDate_def)
  then have t: "ToIntegerOrInfinity (getDate now + of_int ?d) = DateFromTime now + ?d"
    by (simp only: ToIntegerOrInfinity_of_int)
  have "setDate now (getDate now + of_int ?d)
          = Some (UTC now (local_time now + ?d * msPerDay))"
    using assms d by (simp add: setDate_in_range t moved_local_time)
  then show ?thesis
    by (simp add: calculateNextHalving_def Math_ceil_def Math_floor_def toISOString_def
        Let_def)
qed

lemma calculateCompletionDate_returns:
  assumes "plausible_reading now" and "\<bar>remainingBitcoin\<bar> \<le> 9000000000"
  shows "calculateCompletionDate now remainingBitcoin =
           Inr (UTC now (local_time now
                  + calculateDaysToCompletion remainingBitcoin * msPerDay))"
proof -
  let ?d = "calculateDaysToCompletion remainingBitcoin"
  have "?d = \<lfloor>remainingBitcoin / 900\<rfloor>"
    by (simp add: calculateDaysToCompletion_def calculateDailyMining_def Math_floor_def)
  moreover have "- 10000000 \<le> \<lfloor>remainingBitcoin / 900\<rfloor>" "\<lfloor>remainingBitcoin / 900\<rfloor> \<le> 10000000"
    using assms(2) by (simp_all add: le_floor_iff floor_le_iff abs_le_iff)
  ultimately have d: "\<bar>real_of_int ?d\<bar> \<le> 10000000" by linarith
  have "getDate now + of_int ?d = of_int (DateFromTime now + ?d)"
    by (simp add: getDate_def)
  then have t: "ToIntegerOrInfinity (getDate now + of_int ?d) = DateFromTime now + ?d"
    by (simp only: ToIntegerOrInfinity_of_int)
  have "setDate now (getDate now + of_int ?d)
          = Some (UTC now (local_time now + ?d * msPerDay))"
    using assms(1) d by (simp add: setDate_in_range t moved_local_time)
  then show ?thesis
    by (simp add: calculateCompletionDate_def toISOString_def Let_def)
qed

text \<open>Where local time runs at a constant offset from universal time, moving the local
  time by whole days moves the instant by as many times 86400000 milliseconds.\<close>

lemma constant_offset_moves_instant:
  assumes "\<And>t. UTC now t = t - offset"
  shows "UTC now (local_time now + n * msPerDay) = time_value now + n * msPerDay"
  by (simp add: assms time_value_def)

text \<open>
  Claim C2. At a height that is an exact multiple of the interval, in particular 210000, the
  next halving is the next strictly greater multiple (420000), so \<open>blocksUntilHalving\<close> is
  never 0. The code does otherwise: at height 210000 both \<open>calculateNextHalving\<close> and
  \<open>getNextHalvingEstimate\<close> return 210000 as the next halving block and 0 blocks until it.
\<close>

theorem next_halving_at_boundary_is_current_height:
  "(case calculateNextHalving \<lparr>Day = 20395, DateFromTime = 3, TimeWithinDay = 0, UTC = \<lambda>t. t\<rparr> 210000 of
      Inl e \<Rightarrow> False
    | Inr r \<Rightarrow> nh_nextHalvingBlock r = 210000 \<and> nh_blocksUntilHalving r = 0)
   \<and> (case getNextHalvingEstimate \<lparr>Day = 20395, DateFromTime = 3, TimeWithinDay = 0, UTC = \<lambda>t. t\<rparr> 210000 of
      Inl e \<Rightarrow> False
    | Inr r \<Rightarrow> he_nextHalvingBlock r = 210000 \<and> he_blocksUntilHalving r = 0)"
  by (simp add: calculateNextHalving_def getNextHalvingEstimate_def
      setDate_def getDate_def TimeClip_def toISOString_def ToIntegerOrInfinity_def
      Math_floor_def Math_ceil_def msPerDay_def Let_def this_BLOCKS_PER_DAY_AVERAGE_def)

section \<open>The remaining supply\<close>

lemma floor_minus_one: "\<lfloor>- 1 :: real\<rfloor> = - 1"
  by (simp add: floor_minus)

lemma getRemainingBitcoin_returns:
  assumes "plausible_reading now" and "0 \<le> totalbc sdata" and "totalbc sdata \<le> 10 ^ 17"
  shows "\<exists>d e. getRemainingBitcoin now (Inr bcperblock) (Inr sdata) =
           Inr \<lparr>rem_totalSupply = 21000000,
                rem_currentSupply = totalbc sdata / 100000000,
                rem_remainingBitcoin = 21000000 - totalbc sdata / 100000000,
                rem_percentageMined = totalbc sdata / 100000000 / 21000000 * 100,
                rem_estimatedCompletionDate = d,
                rem_currentBlockReward = this_currentBlockReward,
                rem_nextHalvingEstimate = e\<rparr>"
  using assms
  by (simp add: getRemainingBitcoin_def getCurrentStats_def this_TOTAL_BITCOIN_SUPPLY_def
      this_SATOSHIS_PER_BITCOIN_def this_BLOCKS_PER_DAY_AVERAGE_def toISOString_def Let_def
      getNextHalvingEstimate_returns this_currentBlockReward_def setDate_in_range abs_le_iff)

lemma fetchBlockchainData_returns:
  assumes "plausible_reading now" and "0 \<le> totalbc sdata" and "totalbc sdata \<le> 10 ^ 17"
  shows "\<exists>d. fetchBlockchainData now (Inr sdata) = Inr d
           \<and> bd_totalBitcoinMined d = Math_floor (totalbc sdata / 100000000)
           \<and> bd_remainingBitcoin d = Math_floor (21000000 - totalbc sdata / 100000000)
           \<and> bd_estimatedDaysToCompletion d
               = calculateDaysToCompletion (21000000 - totalbc sdata / 100000000)"
proof -
  have "\<bar>21000000 - totalbc sdata / 100000000\<bar> \<le> 9000000000"
    using assms(2,3) by (simp add: abs_le_iff)
  from calculateCompletionDate_returns [OF assms(1) this] show ?thesis
    by (simp add: fetchBlockchainData_def Let_def calculateNextHalving_returns [OF assms(1)])
qed

lemma floors_of_split:
  fixes c :: real
  shows "\<lfloor>c\<rfloor> + \<lfloor>21000000 - c\<rfloor> = (if c = of_int \<lfloor>c\<rfloor> then 21000000 else 20999999)"
proof (cases "c = of_int \<lfloor>c\<rfloor>")
  case True
  then have "21000000 - c = of_int (21000000 - \<lfloor>c\<rfloor>)" by simp
  then have "\<lfloor>21000000 - c\<rfloor> = 21000000 - \<lfloor>c\<rfloor>" by (simp only: floor_of_int)
  with True show ?thesis by simp
next
  case False
  have "of_int \<lfloor>c\<rfloor> \<le> c" "c < of_int \<lfloor>c\<rfloor> + 1" by linarith+
  with False have "of_int \<lfloor>c\<rfloor> < c" by linarith
  have "\<lfloor>21000000 - c\<rfloor> = 20999999 - \<lfloor>c\<rfloor>"
  proof (rule floor_unique)
    show "of_int (20999999 - \<lfloor>c\<rfloor>) \<le> 21000000 - c"
      using \<open>c < of_int \<lfloor>c\<rfloor> + 1\<close> unfolding of_int_diff of_int_numeral by linarith
    show "21000000 - c < of_int (20999999 - \<lfloor>c\<rfloor>) + 1"
      using \<open>of_int \<lfloor>c\<rfloor> < c\<close> unfolding of_int_diff of_int_numeral by linarith
  qed
  with False show ?thesis by simp
qed

text \<open>
  Claim C1, as stated: the circulating supply plus the remaining supply computed by the
  projection is exactly 21000000, with no rounding before the final presentation. It is
  not in \<open>fetchBlockchainData\<close>, which floors both before it returns them: with 19957621.5
  bitcoin mined the returned fields are 19957621 and 1042378, which add up to 20999999.
\<close>

theorem returned_floors_lose_one:
  "(case fetchBlockchainData
          \<lparr>Day = 20395, DateFromTime = 3, TimeWithinDay = 43200000, UTC = \<lambda>t. t\<rparr>
          (Inr \<lparr>totalbc = 1995762150000000, n_blocks_total = 926444, difficulty = 1,
                hash_rate = 1, n_tx = 1\<rparr>) of
      Inl e \<Rightarrow> False
    | Inr d \<Rightarrow> bd_totalBitcoinMined d = 19957621 \<and> bd_remainingBitcoin d = 1042378
               \<and> bd_totalBitcoinMined d + bd_remainingBitcoin d \<noteq> 21000000)"
  by (simp add: fetchBlockchainData_def calculateCompletionDate_def
      calculateNextHalving_def calculateDaysToCompletion_def calculateDailyMining_def
      setDate_def getDate_def TimeClip_def toISOString_def ToIntegerOrInfinity_def
      Math_floor_def Math_ceil_def js_or_def msPerDay_def Let_def)

text \<open>
  Claim C1, amended. For every total of mined satoshis between 0 and \<open>21000000 \<times> 10\<^sup>8\<close>,
  \<open>getRemainingBitcoin\<close> returns the circulating supply (the total divided by \<open>10\<^sup>8\<close>) and
  the remaining supply unrounded, and they add up to exactly 21000000 bitcoin.
  \<open>fetchBlockchainData\<close> returns the two floored to whole bitcoin; the returned fields add
  up to 21000000 when the total is a whole number of bitcoin and to 20999999 when it is not.
\<close>

theorem supply_invariant:
  assumes "plausible_reading now"
    and "0 \<le> totalbc sdata" and "totalbc sdata \<le> TOTAL_SUPPLY_SATOSHIS"
  shows "(\<exists>r. getRemainingBitcoin now (Inr bcperblock) (Inr sdata) = Inr r
              \<and> rem_currentSupply r = totalbc sdata / 10 ^ 8
              \<and> rem_currentSupply r + rem_remainingBitcoin r = 21000000
              \<and> rem_currentSupply r + rem_remainingBitcoin r = TOTAL_SUPPLY_SATOSHIS / 10 ^ 8)
       \<and> (\<exists>d. fetchBlockchainData now (Inr sdata) = Inr d
              \<and> bd_totalBitcoinMined d = \<lfloor>totalbc sdata / 10 ^ 8\<rfloor>
              \<and> bd_remainingBitcoin d = \<lfloor>21000000 - totalbc sdata / 10 ^ 8\<rfloor>
              \<and> bd_totalBitcoinMined d + bd_remainingBitcoin d
                  = (if totalbc sdata / 10 ^ 8 = of_int \<lfloor>totalbc sdata / 10 ^ 8\<rfloor>
                     then 21000000 else 20999999))"
proof -
  have b: "totalbc sdata \<le> 10 ^ 17"
    using assms(3) by (simp add: TOTAL_SUPPLY_SATOSHIS_def)
  from getRemainingBitcoin_returns [OF assms(1,2) b, of bcperblock]
  have "\<exists>r. getRemainingBitcoin now (Inr bcperblock) (Inr sdata) = Inr r
              \<and> rem_currentSupply r = totalbc sdata / 10 ^ 8
              \<and> rem_currentSupply r + rem_remainingBitcoin r = 21000000
              \<and> rem_currentSupply r + rem_remainingBitcoin r = TOTAL_SUPPLY_SATOSHIS / 10 ^ 8"
    by (auto simp: TOTAL_SUPPLY_SATOSHIS_def)
  moreover from fetchBlockchainData_returns [OF assms(1,2) b]
  obtain d where d: "fetchBlockchainData now (Inr sdata) = Inr d"
    "bd_totalBitcoinMined d = Math_floor (totalbc sdata / 100000000)"
    "bd_remainingBitcoin d = Math_floor (21000000 - totalbc sdata / 100000000)"
    by blast
  have "\<exists>d. fetchBlockchainData now (Inr sdata) = Inr d
              \<and> bd_totalBitcoinMined d = \<lfloor>totalbc sdata / 10 ^ 8\<rfloor>
              \<and> bd_remainingBitcoin d = \<lfloor>21000000 - totalbc sdata / 10 ^ 8\<rfloor>
              \<and> bd_totalBitcoinMined d + bd_remainingBitcoin d
                  = (if totalbc sdata / 10 ^ 8 = of_int \<lfloor>totalbc sdata / 10 ^ 8\<rfloor>
                     then 21000000 else 20999999)"
    using d floors_of_split [of "totalbc sdata / 10 ^ 8"]
    by (intro exI [of _ d]) (simp add: Math_floor_def)
  ultimately show ?thesis by blast
qed

theorem supply_invariant_witness:
  "plausible_reading \<lparr>Day = 20395, DateFromTime = 3, TimeWithinDay = 43200000, UTC = \<lambda>t. t\<rparr>
   \<and> (0::real) \<le> 1995762100000000 \<and> 1995762100000000 \<le> TOTAL_SUPPLY_SATOSHIS
   \<and> (\<exists>r. getRemainingBitcoin
             \<lparr>Day = 20395, DateFromTime = 3, TimeWithinDay = 43200000, UTC = \<lambda>t. t\<rparr>
             (Inr 312500000)
             (Inr \<lparr>totalbc = 1995762100000000, n_blocks_total = 926444, difficulty = 1,
                   hash_rate = 1, n_tx = 1\<rparr>) = Inr r
          \<and> rem_currentSupply r = 19957621 \<and> rem_remainingBitcoin r = 1042379)
   \<and> (\<exists>d. fetchBlockchainData
             \<lparr>Day = 20395, DateFromTime = 3, TimeWithinDay = 43200000, UTC = \<lambda>t. t\<rparr>
             (Inr \<lparr>totalbc = 1995762100000000, n_blocks_total = 926444, difficulty = 1,
                   hash_rate = 1, n_tx = 1\<rparr>) = Inr d
          \<and> bd_totalBitcoinMined d = 19957621 \<and> bd_remainingBitcoin d = 1042379)"
  using supply_invariant
      [of "\<lparr>Day = 20395, DateFromTime = 3, TimeWithinDay = 43200000, UTC = \<lambda>t. t\<rparr>"
      "\<lparr>totalbc = 1995762100000000, n_blocks_total = 926444, difficulty = 1,
        hash_rate = 1, n_tx = 1\<rparr>" 312500000]
  by (auto simp: plausible_reading_def msPerDay_def TOTAL_SUPPLY_SATOSHIS_def)

text \<open>
  Claim C4, as stated: with more than \<open>21000000 \<times> 10\<^sup>8\<close> satoshis mined the projection fails
  with \<open>SupplyInvariantViolated\<close>. It does not: with one bitcoin too many,
  \<open>getRemainingBitcoin\<close> returns a result whose remaining supply is \<open>-1\<close>, and so does
  \<open>getCurrentStats\<close> of the current-stats function.
\<close>

theorem excess_supply_not_rejected:
  "(case getRemainingBitcoin \<lparr>Day = 20395, DateFromTime = 3, TimeWithinDay = 43200000, UTC = \<lambda>t. t\<rparr>
          (Inr 312500000)
          (Inr \<lparr>totalbc = 2100000100000000, n_blocks_total = 926444, difficulty = 1,
                hash_rate = 1, n_tx = 1\<rparr>) of
      Inl e \<Rightarrow> False
    | Inr r \<Rightarrow> rem_remainingBitcoin r = - 1 \<and> rem_currentSupply r = 21000001)
   \<and> (case current_stats_getCurrentStats
          \<lparr>Day = 20395, DateFromTime = 3, TimeWithinDay = 43200000, UTC = \<lambda>t. t\<rparr> (Inr 926444)
          (Inr \<lparr>totalbc = 2100000100000000, n_blocks_total = 926444, difficulty = 1,
                hash_rate = 1, n_tx = 1\<rparr>) of
      Inl e \<Rightarrow> False
    | Inr s \<Rightarrow> ss_remainingBitcoin s = - 1)"
  by (simp add: getRemainingBitcoin_def getCurrentStats_def getNextHalvingEstimate_def
      current_stats_getCurrentStats_def this_TOTAL_BITCOIN_SUPPLY_def
      this_SATOSHIS_PER_BITCOIN_def this_BLOCKS_PER_DAY_AVERAGE_def this_currentBlockReward_def
      setDate_def getDate_def TimeClip_def toISOString_def ToIntegerOrInfinity_def
      Math_floor_def Math_ceil_def msPerDay_def Let_def floor_minus_one)

text \<open>
  Claim C4, amended. With more than \<open>21000000 \<times> 10\<^sup>8\<close> satoshis mined (up to \<open>10\<^sup>1\<^sup>7\<close>) the
  projection does not fail: it returns the negative remaining supply
  \<open>21000000 - total / 10\<^sup>8\<close> as computed, floored in the current-stats function, neither
  clamped nor replaced.
\<close>

theorem excess_supply_returned_negative:
  assumes "plausible_reading now"
    and "TOTAL_SUPPLY_SATOSHIS < totalbc sdata" and "totalbc sdata \<le> 10 ^ 17"
  shows "(\<exists>r. getRemainingBitcoin now (Inr bcperblock) (Inr sdata) = Inr r
              \<and> rem_remainingBitcoin r = 21000000 - totalbc sdata / 10 ^ 8
              \<and> rem_remainingBitcoin r < 0)
       \<and> (\<exists>s. current_stats_getCurrentStats now (Inr height) (Inr sdata) = Inr s
              \<and> ss_remainingBitcoin s = \<lfloor>21000000 - totalbc sdata / 10 ^ 8\<rfloor>
              \<and> ss_remainingBitcoin s < 0)"
proof -
  have p: "0 \<le> totalbc sdata" and n: "21000000 - totalbc sdata / 10 ^ 8 < 0"
    using assms(2) by (simp_all add: TOTAL_SUPPLY_SATOSHIS_def)
  from getRemainingBitcoin_returns [OF assms(1) p assms(3), of bcperblock] n
  have "\<exists>r. getRemainingBitcoin now (Inr bcperblock) (Inr sdata) = Inr r
              \<and> rem_remainingBitcoin r = 21000000 - totalbc sdata / 10 ^ 8
              \<and> rem_remainingBitcoin r < 0"
    by auto
  moreover have "\<lfloor>21000000 - totalbc sdata / 10 ^ 8\<rfloor> < 0"
    using n by (simp add: floor_less_iff)
  then have "\<exists>s. current_stats_getCurrentStats now (Inr height) (Inr sdata) = Inr s
              \<and> ss_remainingBitcoin s = \<lfloor>21000000 - totalbc sdata / 10 ^ 8\<rfloor>
              \<and> ss_remainingBitcoin s < 0"
    by (simp add: current_stats_getCurrentStats_def Let_def Math_floor_def
        this_TOTAL_BITCOIN_SUPPLY_def this_SATOSHIS_PER_BITCOIN_def)
  ultimately show ?thesis by blast
qed

theorem excess_supply_returned_negative_witness:
  "plausible_reading \<lparr>Day = 20395, DateFromTime = 3, TimeWithinDay = 43200000, UTC = \<lambda>t. t\<rparr>
   \<and> TOTAL_SUPPLY_SATOSHIS < 2100000100000000 \<and> (2100000100000000::real) \<le> 10 ^ 17
   \<and> (\<exists>r. getRemainingBitcoin \<lparr>Day = 20395, DateFromTime = 3, TimeWithinDay = 43200000, UTC = \<lambda>t. t\<rparr>
             (Inr 312500000)
             (Inr \<lparr>totalbc = 2100000100000000, n_blocks_total = 926444, difficulty = 1,
                   hash_rate = 1, n_tx = 1\<rparr>) = Inr r
          \<and> rem_remainingBitcoin r = - 1)"
  using excess_supply_returned_negative
      [of "\<lparr>Day = 20395, DateFromTime = 3, TimeWithinDay = 43200000, UTC = \<lambda>t. t\<rparr>"
      "\<lparr>totalbc = 2100000100000000, n_blocks_total = 926444, difficulty = 1,
        hash_rate = 1, n_tx = 1\<rparr>" 312500000]
  by (auto simp: plausible_reading_def msPerDay_def TOTAL_SUPPLY_SATOSHIS_def)

section \<open>The daily mining figure\<close>

lemma getDailyMiningData_blocks:
  "dm_blocksMinedLast24h (getDailyMiningData now response) =
     (case response of
        Inl e \<Rightarrow> this_BLOCKS_PER_DAY_AVERAGE
      | Inr blocks \<Rightarrow>
          (if isl (map_blocks blocks) then this_BLOCKS_PER_DAY_AVERAGE
           else of_nat (length blocks)))"
  by (simp add: getDailyMiningData_def getEstimatedDailyData_def Let_def
      split: sum.splits)

lemma getDailyMiningData_bitcoin:
  "dm_bitcoinMinedLast24h (getDailyMiningData now response) =
     dm_blocksMinedLast24h (getDailyMiningData now response) * this_currentBlockReward"
  by (simp add: getDailyMiningData_def getEstimatedDailyData_def Let_def
      split: sum.splits)

lemma map_blocks_valid:
  "\<forall>b \<in> set blocks. \<bar>rb_time b * 1000\<bar> \<le> 8640000000000000 \<Longrightarrow> \<not> isl (map_blocks blocks)"
proof (induction blocks)
  case Nil
  then show ?case by simp
next
  case (Cons b blocks)
  then show ?case
    by (auto simp: Date_of_number_def TimeClip_def toISOString_def split: sum.splits)
qed

text \<open>
  Claim C5, as stated: the daily mining rate is \<open>blocksPerDay\<close> times the reward at the
  current height, with 144 blocks when none were observed; at height 926444 with 144
  observed blocks it is \<open>144 \<times> currentBlockReward(926444)\<close>. It is not: the browser's
  \<open>calculateDailyMining\<close> is 900 and the service's figure for 144 observed blocks is 900,
  while the reward at height 926444 is 3.125 and 144 times that is 450; and for an
  observation of no blocks the service's figure is 0.
\<close>

theorem daily_mining_ignores_height:
  "calculateDailyMining = 900
   \<and> dm_bitcoinMinedLast24h
        (getDailyMiningData \<lparr>Day = 20395, DateFromTime = 3, TimeWithinDay = 43200000, UTC = \<lambda>t. t\<rparr>
           (Inr (replicate 144 \<lparr>rb_height = 926444, rb_hash = ''00'', rb_time = 1762171200,
                                 rb_size = 1, rb_n_tx = 1\<rparr>))) = 900
   \<and> getCurrentBlockReward 926444 = Finite 3.125 \<and> 144 * 3.125 = (450::real)
   \<and> dm_bitcoinMinedLast24h
        (getDailyMiningData \<lparr>Day = 20395, DateFromTime = 3, TimeWithinDay = 43200000, UTC = \<lambda>t. t\<rparr>
           (Inr [])) = 0"
proof -
  let ?blocks = "replicate 144 \<lparr>rb_height = 926444, rb_hash = ''00'', rb_time = 1762171200,
                                 rb_size = 1, rb_n_tx = 1\<rparr>"
  have "\<not> isl (map_blocks ?blocks)"
    by (rule map_blocks_valid) simp
  then show ?thesis
    using getDailyMiningData_blocks
      [of "\<lparr>Day = 20395, DateFromTime = 3, TimeWithinDay = 43200000, UTC = \<lambda>t. t\<rparr>" "Inr ?blocks"]
    by (simp add: getDailyMiningData_bitcoin calculateDailyMining_def reward_finite
        this_currentBlockReward_def)
       (simp add: getDailyMiningData_def)
qed

text \<open>
  Claim C5, amended. The daily mining figure of the service is \<open>blocksPerDay\<close> times the
  reward constant stored in the service, whatever the height; \<open>blocksPerDay\<close> is the number
  of blocks observed in the last 24 hours whenever the observation was obtained, zero
  included, and the average of 144 only when it was not (the request failed or a block's
  time cannot be rendered).
\<close>

theorem daily_mining_uses_stored_reward:
  "dm_bitcoinMinedLast24h (getDailyMiningData now response)
     = dm_blocksMinedLast24h (getDailyMiningData now response) * this_currentBlockReward
   \<and> dm_blocksMinedLast24h (getDailyMiningData now response)
     = (case response of
          Inl e \<Rightarrow> this_BLOCKS_PER_DAY_AVERAGE
        | Inr blocks \<Rightarrow>
            (if isl (map_blocks blocks) then this_BLOCKS_PER_DAY_AVERAGE
             else of_nat (length blocks)))
   \<and> this_BLOCKS_PER_DAY_AVERAGE = TARGET_BLOCKS_PER_DAY"
  using getDailyMiningData_blocks [of now response] getDailyMiningData_bitcoin [of now response]
  by (simp add: this_BLOCKS_PER_DAY_AVERAGE_def TARGET_BLOCKS_PER_DAY_def)

section \<open>The clock\<close>

text \<open>
  Claim C6, as stated: the projection reads no ambient clock, so identical inputs give
  identical outputs. They do not: the same height and the same remaining supply, computed
  at two readings of the system clock one day apart on a host in universal time, give
  different results from \<open>getNextHalvingEstimate\<close>, \<open>calculateNextHalving\<close> and
  \<open>calculateCompletionDate\<close>.
\<close>

theorem projection_reads_ambient_clock:
  "getNextHalvingEstimate \<lparr>Day = 20395, DateFromTime = 3, TimeWithinDay = 43200000, UTC = \<lambda>t. t\<rparr> 926444
     \<noteq> getNextHalvingEstimate \<lparr>Day = 20396, DateFromTime = 4, TimeWithinDay = 43200000, UTC = \<lambda>t. t\<rparr> 926444
   \<and> calculateNextHalving \<lparr>Day = 20395, DateFromTime = 3, TimeWithinDay = 43200000, UTC = \<lambda>t. t\<rparr> 926444
     \<noteq> calculateNextHalving \<lparr>Day = 20396, DateFromTime = 4, TimeWithinDay = 43200000, UTC = \<lambda>t. t\<rparr> 926444
   \<and> calculateCompletionDate \<lparr>Day = 20395, DateFromTime = 3, TimeWithinDay = 43200000, UTC = \<lambda>t. t\<rparr> 1042379
     \<noteq> calculateCompletionDate \<lparr>Day = 20396, DateFromTime = 4, TimeWithinDay = 43200000, UTC = \<lambda>t. t\<rparr> 1042379"
  by (simp add: calculateNextHalving_def getNextHalvingEstimate_def calculateCompletionDate_def
      calculateDaysToCompletion_def calculateDailyMining_def
      setDate_def getDate_def TimeClip_def toISOString_def ToIntegerOrInfinity_def
      Math_floor_def Math_ceil_def msPerDay_def Let_def this_BLOCKS_PER_DAY_AVERAGE_def
      iso_date_part_def)

text \<open>
  Claim C6, amended. The projection is a function of its inputs, of the system clock, which
  it reads itself, and of the host's time zone. At a plausible reading, the halving block,
  the blocks and days until it and the rewards do not depend on the clock, and each
  estimated date is the reading's local time moved forward by the computed whole number
  of days and converted to universal time by the rule of the host's time zone. In universal
  time that is the instant of the reading plus that many days; in New York, from 1 November
  2025 over 858 days and the end of daylight saving, it is an hour more.
\<close>

theorem projection_dates_follow_clock:
  assumes "plausible_reading now" and "\<bar>remainingBitcoin\<bar> \<le> 9000000000"
  shows "calculateCompletionDate now remainingBitcoin
           = Inr (UTC now (local_time now
                    + calculateDaysToCompletion remainingBitcoin * msPerDay))
       \<and> calculateNextHalving now h =
           Inr \<lparr>nh_nextHalvingBlock = of_int \<lceil>h / 210000\<rceil> * 210000,
                nh_blocksUntilHalving = of_int \<lceil>h / 210000\<rceil> * 210000 - h,
                nh_daysUntilHalving = \<lfloor>(of_int \<lceil>h / 210000\<rceil> * 210000 - h) / 144\<rfloor>,
                nh_estimatedDate = UTC now (local_time now
                  + \<lfloor>(of_int \<lceil>h / 210000\<rceil> * 210000 - h) / 144\<rfloor> * msPerDay)\<rparr>
       \<and> getNextHalvingEstimate now h =
           Inr \<lparr>he_nextHalvingBlock = of_int \<lceil>h / 210000\<rceil> * 210000,
                he_blocksUntilHalving = of_int \<lceil>h / 210000\<rceil> * 210000 - h,
                he_daysUntilHalving = Math_round ((of_int \<lceil>h / 210000\<rceil> * 210000 - h) / 144),
                he_estimatedDate = iso_date_part (UTC now (local_time now
                  + \<lfloor>(of_int \<lceil>h / 210000\<rceil> * 210000 - h) / 144\<rfloor> * msPerDay)),
                he_currentReward = this_currentBlockReward,
                he_nextReward = this_currentBlockReward / 2\<rparr>"
  using assms
  by (simp add: calculateCompletionDate_returns calculateNextHalving_returns
      getNextHalvingEstimate_returns)

theorem projection_dates_follow_clock_witness:
  "plausible_reading
     \<lparr>Day = 20393, DateFromTime = 1, TimeWithinDay = 43200000, UTC = \<lambda>t. t\<rparr>
   \<and> plausible_reading
     \<lparr>Day = 20393, DateFromTime = 1, TimeWithinDay = 28800000,
      UTC = \<lambda>t. if t < 1762048800000 then t + 14400000 else t + 18000000\<rparr>
   \<and> \<bar>1042379 :: real\<bar> \<le> 9000000000
   \<and> time_value \<lparr>Day = 20393, DateFromTime = 1, TimeWithinDay = 43200000, UTC = \<lambda>t. t\<rparr>
       = 1761998400000
   \<and> time_value \<lparr>Day = 20393, DateFromTime = 1, TimeWithinDay = 28800000,
        UTC = \<lambda>t. if t < 1762048800000 then t + 14400000 else t + 18000000\<rparr>
       = 1761998400000
   \<and> calculateCompletionDate
        \<lparr>Day = 20393, DateFromTime = 1, TimeWithinDay = 43200000, UTC = \<lambda>t. t\<rparr> 1042379
       = Inr (1761998400000 + 1158 * 86400000)
   \<and> calculateNextHalving
        \<lparr>Day = 20393, DateFromTime = 1, TimeWithinDay = 43200000, UTC = \<lambda>t. t\<rparr> 926444
       = Inr \<lparr>nh_nextHalvingBlock = 1050000, nh_blocksUntilHalving = 123556,
              nh_daysUntilHalving = 858, nh_estimatedDate = 1836129600000\<rparr>
   \<and> calculateNextHalving
        \<lparr>Day = 20393, DateFromTime = 1, TimeWithinDay = 28800000,
         UTC = \<lambda>t. if t < 1762048800000 then t + 14400000 else t + 18000000\<rparr> 926444
       = Inr \<lparr>nh_nextHalvingBlock = 1050000, nh_blocksUntilHalving = 123556,
              nh_daysUntilHalving = 858, nh_estimatedDate = 1836133200000\<rparr>"
  using projection_dates_follow_clock
      [of "\<lparr>Day = 20393, DateFromTime = 1, TimeWithinDay = 43200000, UTC = \<lambda>t. t\<rparr>"
       1042379 926444]
    projection_dates_follow_clock
      [of "\<lparr>Day = 20393, DateFromTime = 1, TimeWithinDay = 28800000,
            UTC = \<lambda>t. if t < 1762048800000 then t + 14400000 else t + 18000000\<rparr>"
       1042379 926444]
  by (simp add: plausible_reading_def msPerDay_def time_value_def local_time_def
      calculateDaysToCompletion_def calculateDailyMining_def Math_floor_def)

section \<open>The cache\<close>

lemma getCachedData_setCachedData:
  "getCachedData (setCachedData cache t k d) now key =
     (if k = key then (if now - t < CACHE_DURATION then Some d else None)
      else getCachedData cache now key)"
  by (simp add: getCachedData_def setCachedData_def)

lemma getCachedData_run_stores:
  "getCachedData (run_stores cache calls) now key =
     (case last_stored key calls of
        None \<Rightarrow> getCachedData cache now key
      | Some (t, d) \<Rightarrow> (if now - t < CACHE_DURATION then Some d else None))"
proof (induction calls arbitrary: cache)
  case Nil
  then show ?case by simp
next
  case (Cons c calls)
  obtain t k d where c: "c = (t, k, d)" by (cases c)
  show ?case
  proof (cases "last_stored key calls")
    case None
    then show ?thesis
      unfolding c by (simp add: Cons.IH getCachedData_setCachedData)
  next
    case (Some r)
    then show ?thesis
      unfolding c by (simp add: Cons.IH)
  qed
qed

lemma getCachedData_empty: "getCachedData Map.empty now key = None"
  by (simp add: getCachedData_def)

text \<open>
  Claim C10. After any history of \<open>setCachedData\<close> calls on the initially empty cache,
  \<open>getCachedData\<close> for a key returns the data of the most recent call for that key exactly
  when fewer than \<open>CACHE_DURATION\<close> = 300000 milliseconds separate the store from the read,
  and \<open>null\<close> otherwise, as it does for a key never stored.
\<close>

theorem getCachedData_fresh_iff:
  "getCachedData (run_stores Map.empty calls) now key =
     (case last_stored key calls of
        None \<Rightarrow> None
      | Some (t, d) \<Rightarrow> (if now - t < 300000 then Some d else None))
   \<and> CACHE_DURATION = 300000"
proof -
  have "CACHE_DURATION = 300000" by (simp add: CACHE_DURATION_def)
  then show ?thesis
    using getCachedData_run_stores [of Map.empty calls now key]
    by (simp add: getCachedData_empty split: option.splits)
qed

theorem getCachedData_fresh_iff_witness:
  "getCachedData
     (run_stores Map.empty
        [(0, ''mining-summary'', 1 :: nat), (1000, ''mining-summary'', 2),
         (2000, ''current-stats'', 3)]) 300999 ''mining-summary'' = Some 2
   \<and> getCachedData
     (run_stores Map.empty
        [(0, ''mining-summary'', 1 :: nat), (1000, ''mining-summary'', 2),
         (2000, ''current-stats'', 3)]) 301000 ''mining-summary'' = None"
  using getCachedData_fresh_iff
      [of "[(0, ''mining-summary'', 1 :: nat), (1000, ''mining-summary'', 2),
            (2000, ''current-stats'', 3)]" 300999 "''mining-summary''"]
    getCachedData_fresh_iff
      [of "[(0, ''mining-summary'', 1 :: nat), (1000, ''mining-summary'', 2),
            (2000, ''current-stats'', 3)]" 301000 "''mining-summary''"]
  by simp

end
